theory Spec2Isabelle
  imports Main
begin

section \<open>JavaScript values\<close>

text \<open>
  Response bodies, request bodies and store fields are untyped at run time
  (axios types \<open>response.data\<close> as \<open>any\<close>), so they are modelled by
  JSON-shaped JavaScript values. Numbers are the integers; no claim depends
  on arithmetic over them.
\<close>

datatype jsval =
    Undefined
  | Null
  | Bool bool
  | Num int
  | Str string
  | Arr "jsval list"
  | Obj "(string \<times> jsval) list"

datatype js_error = TypeError | Error string

text \<open>JavaScript truthiness, as used by \<open>if (token)\<close>, \<open>!!user\<close> and \<open>a || b\<close>.\<close>

fun truthy :: "jsval \<Rightarrow> bool" where
  "truthy Undefined = False"
| "truthy Null = False"
| "truthy (Bool b) = b"
| "truthy (Num n) = (n \<noteq> 0)"
| "truthy (Str s) = (s \<noteq> [])"
| "truthy (Arr xs) = True"
| "truthy (Obj kvs) = True"

text \<open>\<open>a || b\<close>\<close>

definition js_or :: "jsval \<Rightarrow> jsval \<Rightarrow> jsval" where
  "js_or a b = (if truthy a then a else b)"

text \<open>
  Property read \<open>v.k\<close>: a TypeError on \<open>undefined\<close> and \<open>null\<close>, the
  member of an object, \<open>undefined\<close> where the member is missing or the value
  is a primitive or an array (only names of JSON members are ever read).
\<close>

fun get_prop :: "jsval \<Rightarrow> string \<Rightarrow> js_error + jsval" where
  "get_prop Undefined k = Inl TypeError"
| "get_prop Null k = Inl TypeError"
| "get_prop (Obj kvs) k = (case map_of kvs k of None \<Rightarrow> Inr Undefined | Some v \<Rightarrow> Inr v)"
| "get_prop v k = Inr Undefined"

text \<open>Optional chaining \<open>v?.k\<close>: \<open>undefined\<close> instead of the TypeError.\<close>

definition get_prop_opt :: "jsval \<Rightarrow> string \<Rightarrow> jsval" where
  "get_prop_opt v k = (case get_prop v k of Inl _ \<Rightarrow> Undefined | Inr x \<Rightarrow> x)"

text \<open>
  String conversion, as applied by a template literal and by js-cookie when
  it writes a value.
\<close>

definition digit_char :: "nat \<Rightarrow> char" where
  "digit_char d = char_of (48 + d)"

fun string_of_nat :: "nat \<Rightarrow> string" where
  "string_of_nat n =
     (if n < 10 then [digit_char n] else string_of_nat (n div 10) @ [digit_char (n mod 10)])"

declare string_of_nat.simps [simp del]

definition string_of_int :: "int \<Rightarrow> string" where
  "string_of_int i = (if i < 0 then CHR ''-'' # string_of_nat (nat (- i)) else string_of_nat (nat i))"

fun join_comma :: "string list \<Rightarrow> string" where
  "join_comma [] = []"
| "join_comma [s] = s"
| "join_comma (s # t # ss) = s @ CHR '','' # join_comma (t # ss)"

fun js_to_string :: "jsval \<Rightarrow> string" where
  "js_to_string Undefined = ''undefined''"
| "js_to_string Null = ''null''"
| "js_to_string (Bool b) = (if b then ''true'' else ''false'')"
| "js_to_string (Num n) = string_of_int n"
| "js_to_string (Str s) = s"
| "js_to_string (Arr xs) =
     join_comma (map (\<lambda>x. if x = Undefined \<or> x = Null then [] else js_to_string x) xs)"
| "js_to_string (Obj kvs) = ''[object Object]''"

section \<open>The browser and the backend\<close>

text \<open>
  An axios request config with the fields the client reads or writes:
  \<open>headers.Authorization\<close> and the marker \<open>_retry\<close> that the response
  interceptor adds.
\<close>

record request =
  http_method :: string
  url :: string
  req_data :: jsval
  authorization :: "string option"
  retry :: bool

record response =
  status :: nat
  data :: jsval

text \<open>
  The error axios rejects with: the config of the request and the response,
  absent when the request got no answer (\<open>error.response\<close> undefined).
\<close>

record axios_error =
  config :: request
  response :: "response option"

datatype failure = AxiosErr axios_error | JsErr js_error

text \<open>The two axios instances of the module: the client \<open>api\<close> and the global \<open>axios\<close>.\<close>

datatype origin = Client | Plain

text \<open>
  The world outside the stores: the cookie jar, local storage, whether
  \<open>window\<close> is defined, the address of the page, the answers the backend
  will give to the next requests in the order they are made (\<open>None\<close> where
  a request gets no answer), and the requests sent so far.
\<close>

record world =
  cookies :: "string \<rightharpoonup> string"
  localStorage :: "string \<rightharpoonup> jsval"
  window_defined :: bool
  location_href :: string
  replies :: "response option list"
  wire :: "(origin \<times> request) list"

definition Cookies_get :: "string \<Rightarrow> world \<Rightarrow> jsval" where
  "Cookies_get name w = (case cookies w name of None \<Rightarrow> Undefined | Some v \<Rightarrow> Str v)"

definition Cookies_set :: "string \<Rightarrow> jsval \<Rightarrow> world \<Rightarrow> world" where
  "Cookies_set name v w = w\<lparr>cookies := (cookies w)(name \<mapsto> js_to_string v)\<rparr>"

definition Cookies_remove :: "string \<Rightarrow> world \<Rightarrow> world" where
  "Cookies_remove name w = w\<lparr>cookies := (cookies w)(name := None)\<rparr>"

definition localStorage_removeItem :: "string \<Rightarrow> world \<Rightarrow> world" where
  "localStorage_removeItem k w = w\<lparr>localStorage := (localStorage w)(k := None)\<rparr>"

definition localStorage_setItem :: "string \<Rightarrow> jsval \<Rightarrow> world \<Rightarrow> world" where
  "localStorage_setItem k v w = w\<lparr>localStorage := (localStorage w)(k \<mapsto> v)\<rparr>"

text \<open>Putting a request on the wire, and taking the backend's next answer.\<close>

definition send :: "origin \<Rightarrow> request \<Rightarrow> world \<Rightarrow> world" where
  "send via rq w = w\<lparr>wire := wire w @ [(via, rq)]\<rparr>"

definition receive :: "world \<Rightarrow> response option \<times> world" where
  "receive w = (case replies w of [] \<Rightarrow> (None, w) | r # rs \<Rightarrow> (r, w\<lparr>replies := rs\<rparr>))"

text \<open>
  How axios settles a request: it resolves with a response whose status is
  in 200..299 (the default \<open>validateStatus\<close>) and rejects otherwise.
\<close>

definition settle :: "request \<Rightarrow> response option \<Rightarrow> axios_error + response" where
  "settle cfg rep =
     (case rep of
        None \<Rightarrow> Inl \<lparr>config = cfg, response = None\<rparr>
      | Some r \<Rightarrow>
          if 200 \<le> status r \<and> status r < 300 then Inr r
          else Inl \<lparr>config = cfg, response = Some r\<rparr>)"

section \<open>The API client (lib/api)\<close>

text \<open>The base address, at its default (\<open>NEXT_PUBLIC_API_URL\<close> unset).\<close>

definition API_URL :: string where
  "API_URL = ''http://localhost:8000/api''"

text \<open>The request interceptor: attach the access token when the cookie holds one.\<close>

definition request_interceptor :: "request \<Rightarrow> world \<Rightarrow> request" where
  "request_interceptor cfg w =
     (let token = Cookies_get ''access_token'' w in
      if truthy token then cfg\<lparr>authorization := Some (''Bearer '' @ js_to_string token)\<rparr>
      else cfg)"

text \<open>The request that \<open>axios.post(`${API_URL}/users/token/refresh/`, {refresh})\<close> sends.\<close>

definition refresh_request :: "jsval \<Rightarrow> request" where
  "refresh_request refreshToken =
     \<lparr>http_method = ''POST'', url = API_URL @ ''/users/token/refresh/'',
      req_data = Obj [(''refresh'', refreshToken)], authorization = None, retry = False\<rparr>"

text \<open>The \<open>catch (refreshError)\<close> block of the response interceptor.\<close>

definition refresh_failed :: "world \<Rightarrow> world" where
  "refresh_failed w =
     (let w1 = Cookies_remove ''access_token'' w;
          w2 = Cookies_remove ''refresh_token'' w1
      in if window_defined w2
         then (localStorage_removeItem ''auth-storage'' w2)\<lparr>location_href := ''/login''\<rparr>
         else w2)"

text \<open>
  The response interceptor's error handler up to its first \<open>await\<close>: either
  it has settled, or it has sent the refresh call and waits for the answer.
  \<open>originalRequest\<close> is the object \<open>error.config\<close>, so marking it marks the
  config the error carries.
\<close>

text \<open>\<open>error.response?.status === 401\<close>\<close>

definition unauthorized :: "axios_error \<Rightarrow> bool" where
  "unauthorized e = (case response e of None \<Rightarrow> False | Some r \<Rightarrow> status r = 401)"

datatype suspended =
    Settled "failure + response"
  | AwaitRefresh axios_error request

definition on_rejected_sync :: "axios_error \<Rightarrow> world \<Rightarrow> suspended \<times> world" where
  "on_rejected_sync e w =
     (if unauthorized e \<and> \<not> retry (config e)
      then
        (let e1 = e\<lparr>config := (config e)\<lparr>retry := True\<rparr>\<rparr>;
             refreshToken = Cookies_get ''refresh_token'' w
         in if truthy refreshToken
            then (AwaitRefresh e1 (refresh_request refreshToken),
                  send Plain (refresh_request refreshToken) w)
            else (Settled (Inl (AxiosErr e1)), refresh_failed w))
      else (Settled (Inl (AxiosErr e)), w))"

text \<open>
  The client: request interceptor, the request itself, and on rejection the
  response interceptor's error handler. After a successful refresh the
  handler returns \<open>api(originalRequest)\<close> without awaiting it, so the outcome
  of the second attempt is the handler's outcome and does not pass through
  the \<open>catch\<close> block.
\<close>

function api :: "request \<Rightarrow> world \<Rightarrow> (failure + response) \<times> world"
  and on_rejected :: "axios_error \<Rightarrow> world \<Rightarrow> (failure + response) \<times> world" where
  "api cfg w =
     (let cfg1 = request_interceptor cfg w in
      case receive (send Client cfg1 w) of
        (rep, w1) \<Rightarrow>
          (case settle cfg1 rep of
             Inr resp \<Rightarrow> (Inr resp, w1)
           | Inl e \<Rightarrow> on_rejected e w1))"
| "on_rejected e w =
     (case on_rejected_sync e w of
        (Settled r, w1) \<Rightarrow> (r, w1)
      | (AwaitRefresh e1 rq, w1) \<Rightarrow>
          (case receive w1 of
             (rep, w2) \<Rightarrow>
               (case settle rq rep of
                  Inl refreshError \<Rightarrow> (Inl (AxiosErr e1), refresh_failed w2)
                | Inr resp \<Rightarrow>
                    (case get_prop (data resp) ''access'' of
                       Inl refreshError \<Rightarrow> (Inl (AxiosErr e1), refresh_failed w2)
                     | Inr access \<Rightarrow>
                         api ((config e1)\<lparr>authorization := Some (''Bearer '' @ js_to_string access)\<rparr>)
                             (Cookies_set ''access_token'' access w2)))))"
  by pat_completeness auto
termination
proof (relation "measure (\<lambda>x. case x of
          Inl (cfg, w) \<Rightarrow> (if retry cfg then 1 else 3)
        | Inr (e, w) \<Rightarrow> (if retry (config e) then 0 else 2))", goal_cases)
  case 1
  show ?case by simp
next
  case 2
  then show ?case
    by (auto simp: settle_def request_interceptor_def Let_def split: option.splits if_splits)
next
  case 3
  then show ?case
    by (auto simp: on_rejected_sync_def Let_def split: if_splits)
qed

declare api.simps [simp del] on_rejected.simps [simp del]

text \<open>The calls \<open>api.get(url)\<close> and \<open>api.post(url, data)\<close>: a fresh config each time.\<close>

definition api_get :: "string \<Rightarrow> world \<Rightarrow> (failure + response) \<times> world" where
  "api_get u w =
     api \<lparr>http_method = ''GET'', url = u, req_data = Undefined, authorization = None, retry = False\<rparr> w"

definition api_post :: "string \<Rightarrow> jsval \<Rightarrow> world \<Rightarrow> (failure + response) \<times> world" where
  "api_post u d w =
     api \<lparr>http_method = ''POST'', url = u, req_data = d, authorization = None, retry = False\<rparr> w"

text \<open>What a caller's \<open>error.response?.data?.k\<close> reads from a caught error.\<close>

definition error_detail :: "failure \<Rightarrow> string \<Rightarrow> jsval" where
  "error_detail err k =
     (case err of
        AxiosErr e \<Rightarrow> (case response e of None \<Rightarrow> Undefined | Some r \<Rightarrow> get_prop_opt (data r) k)
      | JsErr _ \<Rightarrow> Undefined)"

text \<open>
  The \<open>persist\<close> middleware writes the partialized state under the store's
  name after every \<open>set\<close>, where local storage exists. The stored value is
  modelled by the object that is serialized.
\<close>

definition persist :: "string \<Rightarrow> jsval \<Rightarrow> world \<Rightarrow> world" where
  "persist name v w = (if window_defined w then localStorage_setItem name v w else w)"

section \<open>The auth store (store/auth-store)\<close>

record auth_state =
  user :: jsval
  isAuthenticated :: bool
  isLoading :: bool

definition auth_initial :: auth_state where
  "auth_initial = \<lparr>user = Null, isAuthenticated = False, isLoading = False\<rparr>"

definition auth_partialize :: "auth_state \<Rightarrow> jsval" where
  "auth_partialize s =
     Obj [(''state'', Obj [(''user'', user s), (''isAuthenticated'', Bool (isAuthenticated s))]),
          (''version'', Num 0)]"

text \<open>\<open>set(partial)\<close> of the auth store; the partial state is the update \<open>upd\<close>.\<close>

definition auth_set :: "(auth_state \<Rightarrow> auth_state) \<Rightarrow> world \<Rightarrow> auth_state \<Rightarrow> world \<times> auth_state" where
  "auth_set upd w s = (persist ''auth-storage'' (auth_partialize (upd s)) w, upd s)"

text \<open>An action resolves (\<open>Inr ()\<close>) or rejects (\<open>Inl\<close>), and leaves a world and a state.\<close>

type_synonym auth_outcome = "(failure + unit) \<times> world \<times> auth_state"

definition fetchProfile :: "world \<Rightarrow> auth_state \<Rightarrow> auth_outcome" where
  "fetchProfile w s =
     (case api_get ''/users/profile/'' w of
        (Inr resp, w1) \<Rightarrow>
          (case auth_set (\<lambda>s. s\<lparr>user := data resp, isAuthenticated := True\<rparr>) w1 s of
             (w2, s2) \<Rightarrow> (Inr (), w2, s2))
      | (Inl err, w1) \<Rightarrow>
          (case auth_set (\<lambda>s. s\<lparr>user := Null, isAuthenticated := False\<rparr>) w1 s of
             (w2, s2) \<Rightarrow> (Inr (), w2, s2)))"

text \<open>
  The \<open>try\<close> block of \<open>login\<close>. The expiry of the cookies (one hour, seven
  days) is not modelled: a cookie may be missing in any world.
\<close>

definition login_try :: "string \<Rightarrow> string \<Rightarrow> world \<Rightarrow> auth_state \<Rightarrow> auth_outcome" where
  "login_try email password w s =
     (case api_post ''/users/login/'' (Obj [(''email'', Str email), (''password'', Str password)]) w of
        (Inl err, w1) \<Rightarrow> (Inl err, w1, s)
      | (Inr resp, w1) \<Rightarrow>
          (case get_prop (data resp) ''access'' of
             Inl je \<Rightarrow> (Inl (JsErr je), w1, s)
           | Inr access \<Rightarrow>
               (case get_prop (data resp) ''refresh'' of
                  Inl je \<Rightarrow> (Inl (JsErr je), w1, s)
                | Inr refresh \<Rightarrow>
                    (case fetchProfile
                            (Cookies_set ''refresh_token'' refresh
                               (Cookies_set ''access_token'' access w1)) s of
                       (Inl err, w2, s2) \<Rightarrow> (Inl err, w2, s2)
                     | (Inr u, w2, s2) \<Rightarrow>
                         (case auth_set (\<lambda>s. s\<lparr>isAuthenticated := True\<rparr>) w2 s2 of
                            (w3, s3) \<Rightarrow> (Inr (), w3, s3))))))"

definition login :: "string \<Rightarrow> string \<Rightarrow> world \<Rightarrow> auth_state \<Rightarrow> auth_outcome" where
  "login email password w s =
     (case auth_set (\<lambda>s. s\<lparr>isLoading := True\<rparr>) w s of
        (w0, s0) \<Rightarrow>
          (case login_try email password w0 s0 of
             (r, w1, s1) \<Rightarrow>
               (case auth_set (\<lambda>s. s\<lparr>isLoading := False\<rparr>) w1 s1 of
                  (w2, s2) \<Rightarrow> (r, w2, s2))))"

text \<open>\<open>setUser\<close> ties the flag to the presence of a user.\<close>

definition setUser :: "jsval \<Rightarrow> world \<Rightarrow> auth_state \<Rightarrow> world \<times> auth_state" where
  "setUser u w s = auth_set (\<lambda>s. s\<lparr>user := u, isAuthenticated := truthy u\<rparr>) w s"

section \<open>The cart store (store/cart-store)\<close>

text \<open>
  The store's fields \<open>cart\<close>, \<open>isLoading\<close> and \<open>error\<close>; the last two are
  prefixed here because the auth store has an \<open>isLoading\<close> of its own.
\<close>

record cart_state =
  cart :: jsval
  cart_isLoading :: bool
  cart_error :: jsval

definition cart_initial :: cart_state where
  "cart_initial = \<lparr>cart = Null, cart_isLoading = False, cart_error = Null\<rparr>"

definition cart_partialize :: "cart_state \<Rightarrow> jsval" where
  "cart_partialize s = Obj [(''state'', Obj [(''cart'', cart s)]), (''version'', Num 0)]"

definition cart_set :: "(cart_state \<Rightarrow> cart_state) \<Rightarrow> world \<Rightarrow> cart_state \<Rightarrow> world \<times> cart_state" where
  "cart_set upd w s = (persist ''cart-storage'' (cart_partialize (upd s)) w, upd s)"

type_synonym cart_outcome = "(failure + unit) \<times> world \<times> cart_state"

text \<open>The \<open>finally\<close> block shared by every action of the cart store.\<close>

definition cart_finally :: "cart_outcome \<Rightarrow> cart_outcome" where
  "cart_finally out =
     (case out of (r, w, s) \<Rightarrow>
        (case cart_set (\<lambda>s. s\<lparr>cart_isLoading := False\<rparr>) w s of (w1, s1) \<Rightarrow> (r, w1, s1)))"

text \<open>The \<open>catch\<close> block of the mutating actions: record a message, throw the error again.\<close>

definition cart_catch :: "string \<Rightarrow> failure \<Rightarrow> world \<Rightarrow> cart_state \<Rightarrow> cart_outcome" where
  "cart_catch fallback err w s =
     (case cart_set (\<lambda>s. s\<lparr>cart_error := js_or (error_detail err ''error'') (Str fallback)\<rparr>) w s of
        (w1, s1) \<Rightarrow> (Inl err, w1, s1))"

definition fetchCart :: "world \<Rightarrow> cart_state \<Rightarrow> cart_outcome" where
  "fetchCart w s =
     (case cart_set (\<lambda>s. s\<lparr>cart_isLoading := True, cart_error := Null\<rparr>) w s of
        (w0, s0) \<Rightarrow>
          cart_finally
            (case api_get ''/cart/'' w0 of
               (Inr resp, w1) \<Rightarrow>
                 (case cart_set (\<lambda>s. s\<lparr>cart := data resp\<rparr>) w1 s0 of (w2, s2) \<Rightarrow> (Inr (), w2, s2))
             | (Inl err, w1) \<Rightarrow>
                 (case cart_set (\<lambda>s. s\<lparr>cart_error :=
                          js_or (error_detail err ''message'') (Str ''Failed to fetch cart'')\<rparr>) w1 s0 of
                    (w2, s2) \<Rightarrow> (Inr (), w2, s2))))"

text \<open>
  \<open>addToCart\<close>, \<open>updateQuantity\<close> and \<open>removeFromCart\<close> differ in the
  address, the request body and the fallback message only.
\<close>

definition cart_post :: "string \<Rightarrow> jsval \<Rightarrow> string \<Rightarrow> world \<Rightarrow> cart_state \<Rightarrow> cart_outcome" where
  "cart_post u body fallback w s =
     (case cart_set (\<lambda>s. s\<lparr>cart_isLoading := True, cart_error := Null\<rparr>) w s of
        (w0, s0) \<Rightarrow>
          cart_finally
            (case api_post u body w0 of
               (Inr resp, w1) \<Rightarrow>
                 (case get_prop (data resp) ''cart'' of
                    Inr c \<Rightarrow>
                      (case cart_set (\<lambda>s. s\<lparr>cart := c\<rparr>) w1 s0 of (w2, s2) \<Rightarrow> (Inr (), w2, s2))
                  | Inl je \<Rightarrow> cart_catch fallback (JsErr je) w1 s0)
             | (Inl err, w1) \<Rightarrow> cart_catch fallback err w1 s0))"

definition addToCart :: "int \<Rightarrow> int option \<Rightarrow> world \<Rightarrow> cart_state \<Rightarrow> cart_outcome" where
  "addToCart productId quantity =
     cart_post ''/cart/add/''
       (Obj [(''product_id'', Num productId),
             (''quantity'', Num (case quantity of None \<Rightarrow> 1 | Some q \<Rightarrow> q))])
       ''Failed to add to cart''"

definition updateQuantity :: "int \<Rightarrow> int \<Rightarrow> world \<Rightarrow> cart_state \<Rightarrow> cart_outcome" where
  "updateQuantity productId quantity =
     cart_post ''/cart/update/''
       (Obj [(''product_id'', Num productId), (''quantity'', Num quantity)])
       ''Failed to update cart''"

definition removeFromCart :: "int \<Rightarrow> world \<Rightarrow> cart_state \<Rightarrow> cart_outcome" where
  "removeFromCart productId =
     cart_post ''/cart/remove/'' (Obj [(''product_id'', Num productId)]) ''Failed to remove from cart''"

definition clearCart :: "world \<Rightarrow> cart_state \<Rightarrow> cart_outcome" where
  "clearCart w s =
     (case cart_set (\<lambda>s. s\<lparr>cart_isLoading := True, cart_error := Null\<rparr>) w s of
        (w0, s0) \<Rightarrow>
          cart_finally
            (case api_post ''/cart/clear/'' Undefined w0 of
               (Inr resp, w1) \<Rightarrow>
                 (case cart_set (\<lambda>s. s\<lparr>cart := Null\<rparr>) w1 s0 of (w2, s2) \<Rightarrow> (Inr (), w2, s2))
             | (Inl err, w1) \<Rightarrow> cart_catch ''Failed to clear cart'' err w1 s0))"

text \<open>
  A cart with no items, as the checkout page tells it from no cart at all:
  \<open>!cart\<close> is its loading state, \<open>cart.items.length === 0\<close> its empty cart.
\<close>

definition cart_without_items :: "jsval \<Rightarrow> bool" where
  "cart_without_items c =
     (truthy c \<and>
      (case get_prop c ''items'' of
         Inr (Arr xs) \<Rightarrow> xs = []
       | Inr (Str t) \<Rightarrow> t = []
       | _ \<Rightarrow> False))"

section \<open>Observations\<close>

text \<open>The three parts of an action's outcome.\<close>

definition result :: "'r \<times> world \<times> 's \<Rightarrow> 'r" where
  "result out = fst out"

definition world_after :: "'r \<times> world \<times> 's \<Rightarrow> world" where
  "world_after out = fst (snd out)"

definition store_after :: "'r \<times> world \<times> 's \<Rightarrow> 's" where
  "store_after out = snd (snd out)"

text \<open>
  The token-refresh calls on the wire: the requests the global \<open>axios\<close>
  sent to the refresh endpoint.
\<close>

definition is_refresh_call :: "origin \<times> request \<Rightarrow> bool" where
  "is_refresh_call c = (fst c = Plain \<and> url (snd c) = API_URL @ ''/users/token/refresh/'')"

definition refresh_calls :: "world \<Rightarrow> nat" where
  "refresh_calls w = length (filter is_refresh_call (wire w))"

text \<open>The forced logout: no token cookie is left and the page is the login page.\<close>

definition forced_logout :: "world \<Rightarrow> bool" where
  "forced_logout w \<longleftrightarrow>
     cookies w ''access_token'' = None \<and> cookies w ''refresh_token'' = None \<and>
     location_href w = ''/login''"

text \<open>The mutating actions of the cart store, and the call each one makes.\<close>

datatype cart_mutation =
    Add int "int option"
  | Update int int
  | Remove int
  | Clear

fun perform :: "cart_mutation \<Rightarrow> world \<Rightarrow> cart_state \<Rightarrow> cart_outcome" where
  "perform (Add productId quantity) = addToCart productId quantity"
| "perform (Update productId quantity) = updateQuantity productId quantity"
| "perform (Remove productId) = removeFromCart productId"
| "perform Clear = clearCart"

fun server_call :: "cart_mutation \<Rightarrow> world \<Rightarrow> (failure + response) \<times> world" where
  "server_call (Add productId quantity) =
     api_post ''/cart/add/''
       (Obj [(''product_id'', Num productId),
             (''quantity'', Num (case quantity of None \<Rightarrow> 1 | Some q \<Rightarrow> q))])"
| "server_call (Update productId quantity) =
     api_post ''/cart/update/'' (Obj [(''product_id'', Num productId), (''quantity'', Num quantity)])"
| "server_call (Remove productId) =
     api_post ''/cart/remove/'' (Obj [(''product_id'', Num productId)])"
| "server_call Clear = api_post ''/cart/clear/'' Undefined"

text \<open>
  Several rejections delivered one after the other before any answer to a
  refresh call has arrived: each handler runs up to its first \<open>await\<close>.
\<close>

fun start_handlers :: "axios_error list \<Rightarrow> world \<Rightarrow> suspended list \<times> world" where
  "start_handlers [] w = ([], w)"
| "start_handlers (e # es) w =
     (case on_rejected_sync e w of
        (s, w1) \<Rightarrow> (case start_handlers es w1 of (ss, w2) \<Rightarrow> (s # ss, w2)))"

text \<open>Two worlds that differ in local storage at most.\<close>

definition storage_apart :: "world \<Rightarrow> world \<Rightarrow> bool" where
  "storage_apart w w' \<longleftrightarrow>
     cookies w = cookies w' \<and> window_defined w = window_defined w' \<and>
     location_href w = location_href w' \<and> replies w = replies w' \<and> wire w = wire w'"

section \<open>Sample inputs\<close>

definition sample_cart :: jsval where
  "sample_cart =
     Obj [(''id'', Num 1),
          (''items'', Arr [Obj [(''id'', Num 10), (''product'', Obj [(''id'', Num 7)]),
                                (''quantity'', Num 2), (''subtotal'', Num 200)]]),
          (''total_items'', Num 2), (''subtotal'', Num 200)]"

definition empty_cart :: jsval where
  "empty_cart =
     Obj [(''id'', Num 1), (''items'', Arr []), (''total_items'', Num 0), (''subtotal'', Num 0)]"

definition sample_user :: jsval where
  "sample_user = Obj [(''id'', Str ''u1''), (''email'', Str ''an@example.com'')]"

definition signed_in :: auth_state where
  "signed_in = \<lparr>user = sample_user, isAuthenticated = True, isLoading = False\<rparr>"

definition shopping :: cart_state where
  "shopping = \<lparr>cart = sample_cart, cart_isLoading = False, cart_error = Null\<rparr>"

text \<open>A browser tab with a session, a persisted cart, and the given answers to come.\<close>

definition browser :: "response option list \<Rightarrow> world" where
  "browser rs =
     \<lparr>cookies = [''access_token'' \<mapsto> ''a0'', ''refresh_token'' \<mapsto> ''r0''],
      localStorage = [''auth-storage'' \<mapsto> auth_partialize signed_in,
                      ''cart-storage'' \<mapsto> cart_partialize shopping],
      window_defined = True, location_href = ''/cart'', replies = rs, wire = []\<rparr>"

text \<open>The same tab without a refresh token.\<close>

definition browser_no_refresh :: "response option list \<Rightarrow> world" where
  "browser_no_refresh rs = Cookies_remove ''refresh_token'' (browser rs)"

text \<open>A tab without a session.\<close>

definition anonymous :: "response option list \<Rightarrow> world" where
  "anonymous rs =
     \<lparr>cookies = Map.empty, localStorage = Map.empty, window_defined = True,
      location_href = ''/login'', replies = rs, wire = []\<rparr>"

definition answer :: "nat \<Rightarrow> jsval \<Rightarrow> response option" where
  "answer st d = Some \<lparr>status = st, data = d\<rparr>"

definition get_cart :: request where
  "get_cart = \<lparr>http_method = ''GET'', url = ''/cart/'', req_data = Undefined,
                authorization = None, retry = False\<rparr>"

section \<open>Facts about the client\<close>

lemmas api_eval = api_get_def api_post_def api.simps on_rejected.simps on_rejected_sync_def
  unauthorized_def
  send_def receive_def settle_def request_interceptor_def refresh_request_def refresh_failed_def
  Cookies_get_def Cookies_set_def Cookies_remove_def localStorage_removeItem_def
  localStorage_setItem_def persist_def Let_def

lemmas sample_defs = browser_def browser_no_refresh_def anonymous_def answer_def get_cart_def sample_cart_def
  empty_cart_def sample_user_def signed_in_def shopping_def

lemma get_prop_readable: "get_prop v k = Inr x \<Longrightarrow> \<exists>y. get_prop v k' = Inr y"
  by (cases v) (simp_all split: option.splits)


lemma request_interceptor_retry [simp]: "retry (request_interceptor cfg w) = retry cfg"
  by (simp add: request_interceptor_def Let_def)



lemma refresh_calls_send_Client [simp]: "refresh_calls (send Client rq w) = refresh_calls w"
  by (simp add: refresh_calls_def send_def is_refresh_call_def)

lemma refresh_calls_send_refresh [simp]:
  "refresh_calls (send Plain (refresh_request t) w) = Suc (refresh_calls w)"
  by (simp add: refresh_calls_def send_def is_refresh_call_def refresh_request_def)


lemma refresh_calls_refresh_failed [simp]: "refresh_calls (refresh_failed w) = refresh_calls w"
  by (simp add: refresh_calls_def refresh_failed_def Cookies_remove_def
      localStorage_removeItem_def Let_def)

lemma refresh_calls_Cookies_set [simp]: "refresh_calls (Cookies_set n v w) = refresh_calls w"
  by (simp add: refresh_calls_def Cookies_set_def)



text \<open>The client neither reads local storage nor lets it decide an outcome.\<close>

lemma storage_apart_refl [simp]: "storage_apart w w"
  by (simp add: storage_apart_def)

lemma storage_apart_persist [simp]: "storage_apart w (persist name v w)"
  by (simp add: storage_apart_def persist_def localStorage_setItem_def)

lemma storage_apart_request_interceptor:
  "storage_apart w w' \<Longrightarrow> request_interceptor cfg w = request_interceptor cfg w'"
  by (simp add: storage_apart_def request_interceptor_def Cookies_get_def)

lemma storage_apart_send:
  "storage_apart w w' \<Longrightarrow> storage_apart (send via rq w) (send via rq w')"
  by (simp add: storage_apart_def send_def)

lemma storage_apart_receive:
  "storage_apart w w' \<Longrightarrow>
   fst (receive w) = fst (receive w') \<and> storage_apart (snd (receive w)) (snd (receive w'))"
  by (simp add: storage_apart_def receive_def split: list.splits)

lemma storage_apart_Cookies_set:
  "storage_apart w w' \<Longrightarrow> storage_apart (Cookies_set n v w) (Cookies_set n v w')"
  by (simp add: storage_apart_def Cookies_set_def)

lemma storage_apart_refresh_failed:
  "storage_apart w w' \<Longrightarrow> storage_apart (refresh_failed w) (refresh_failed w')"
  by (simp add: storage_apart_def refresh_failed_def Cookies_remove_def
      localStorage_removeItem_def Let_def)

lemma storage_apart_on_rejected_sync:
  "storage_apart w w' \<Longrightarrow>
   fst (on_rejected_sync e w) = fst (on_rejected_sync e w') \<and>
   storage_apart (snd (on_rejected_sync e w)) (snd (on_rejected_sync e w'))"
  using storage_apart_refresh_failed [of w w'] storage_apart_send [of w w']
  by (simp add: on_rejected_sync_def Let_def Cookies_get_def storage_apart_def)

lemma storage_apart_api:
  "storage_apart w w' \<Longrightarrow>
   fst (api cfg w) = fst (api cfg w') \<and> storage_apart (snd (api cfg w)) (snd (api cfg w'))"
  and storage_apart_on_rejected:
  "storage_apart w0 w0' \<Longrightarrow>
   fst (on_rejected e w0) = fst (on_rejected e w0') \<and>
   storage_apart (snd (on_rejected e w0)) (snd (on_rejected e w0'))"
proof (induction cfg w and e w0 arbitrary: w' and w0' rule: api_on_rejected.induct)
  case (1 cfg w)
  let ?c = "request_interceptor cfg w"
  have c: "request_interceptor cfg w' = ?c"
    using 1(2) by (simp add: storage_apart_request_interceptor)
  obtain rep w1 where r: "receive (send Client ?c w) = (rep, w1)"
    by (cases "receive (send Client ?c w)")
  obtain rep' w1' where r': "receive (send Client ?c w') = (rep', w1')"
    by (cases "receive (send Client ?c w')")
  from storage_apart_receive [OF storage_apart_send [OF 1(2), of Client ?c]] r r'
  have eq: "rep' = rep" and ap: "storage_apart w1 w1'"
    by simp_all
  show ?case
  proof (cases "settle ?c rep")
    case (Inr resp)
    with r r' eq ap c show ?thesis
      by (simp add: api.simps [of cfg] Let_def)
  next
    case (Inl a)
    from 1(1) [OF refl r [symmetric] Inl ap] r r' eq c Inl show ?thesis
      by (simp add: api.simps [of cfg] Let_def)
  qed
next
  case (2 e w)
  obtain s w1 where p: "on_rejected_sync e w = (s, w1)"
    by (cases "on_rejected_sync e w")
  obtain s' w1' where p': "on_rejected_sync e w0' = (s', w1')"
    by (cases "on_rejected_sync e w0'")
  from storage_apart_on_rejected_sync [OF 2(2), of e] p p'
  have s: "s' = s" and ap1: "storage_apart w1 w1'"
    by simp_all
  show ?case
  proof (cases s)
    case (Settled r)
    with p p' s ap1 show ?thesis
      by (simp add: on_rejected.simps [of e])
  next
    case (AwaitRefresh e1 rq)
    obtain rep w2 where r: "receive w1 = (rep, w2)"
      by (cases "receive w1")
    obtain rep' w2' where r': "receive w1' = (rep', w2')"
      by (cases "receive w1'")
    from storage_apart_receive [OF ap1] r r'
    have eq: "rep' = rep" and ap2: "storage_apart w2 w2'"
      by simp_all
    note unfold = on_rejected.simps [of e] p p' s AwaitRefresh r r' eq
    show ?thesis
    proof (cases "settle rq rep")
      case (Inl refreshError)
      with storage_apart_refresh_failed [OF ap2] show ?thesis
        by (simp add: unfold)
    next
      case (Inr resp)
      show ?thesis
      proof (cases "get_prop (data resp) ''access''")
        case (Inl refreshError)
        with Inr storage_apart_refresh_failed [OF ap2] show ?thesis
          by (simp add: unfold)
      next
        case inner: (Inr access)
        from AwaitRefresh p have "(s, w1) = on_rejected_sync e w" by simp
        from 2(1) [OF this AwaitRefresh r [symmetric] Inr inner
            storage_apart_Cookies_set [OF ap2]] Inr inner
        show ?thesis
          by (simp add: unfold)
      qed
    qed
  qed
qed

lemma api_post_storage:
  "storage_apart w w' \<Longrightarrow> fst (api_post u d w') = fst (api_post u d w)"
  using storage_apart_api [of w w'] by (simp add: api_post_def)

lemma api_get_storage:
  "storage_apart w w' \<Longrightarrow> fst (api_get u w') = fst (api_get u w)"
  using storage_apart_api [of w w'] by (simp add: api_get_def)




text \<open>The profile fetch has one outcome only.\<close>

lemma fetchProfile_outcome: "fetchProfile w s = (r, w', s') \<Longrightarrow> r = Inr ()"
  by (auto simp: fetchProfile_def auth_set_def split: prod.splits sum.splits)


section \<open>The claims\<close>




text \<open>
  C2, as the claim states it, fails for the persisted cart: a request is
  answered 401 while no refresh token is stored; the cookies and the
  persisted auth snapshot are removed and the page goes to the login page,
  but the persisted cart snapshot is still in local storage.
\<close>

theorem refresh_failure_keeps_cart_snapshot:
  "fst (api get_cart (browser_no_refresh [answer 401 Null]))
     = Inl (AxiosErr \<lparr>config = \<lparr>http_method = ''GET'', url = ''/cart/'', req_data = Undefined,
                authorization = Some ''Bearer a0'', retry = True\<rparr>,
              response = answer 401 Null\<rparr>) \<and>
   refresh_calls (snd (api get_cart (browser_no_refresh [answer 401 Null]))) = 0 \<and>
   forced_logout (snd (api get_cart (browser_no_refresh [answer 401 Null]))) \<and>
   localStorage (snd (api get_cart (browser_no_refresh [answer 401 Null]))) ''auth-storage'' = None \<and>
   localStorage (snd (api get_cart (browser_no_refresh [answer 401 Null]))) ''cart-storage''
     = Some (cart_partialize shopping)"
  by (simp add: api_eval sample_defs refresh_calls_def is_refresh_call_def forced_logout_def)

text \<open>
  C2, amended. When the refresh flow fails (no refresh token is stored, or
  the refresh call is rejected), the handler removes both token cookies and
  rejects with the original error; where \<open>window\<close> is defined it also
  removes the persisted auth snapshot and sends the page to the login page.
  Every other entry of local storage, the persisted cart snapshot among
  them, is left as it was.
\<close>

theorem refresh_failure_purges:
  "unauthorized e \<and> \<not> retry (config e) \<and>
   (\<not> truthy (Cookies_get ''refresh_token'' w) \<or>
    isl (settle (refresh_request (Cookies_get ''refresh_token'' w)) (fst (receive w)))) \<Longrightarrow>
   fst (on_rejected e w) = Inl (AxiosErr (e\<lparr>config := (config e)\<lparr>retry := True\<rparr>\<rparr>)) \<and>
   cookies (snd (on_rejected e w)) ''access_token'' = None \<and>
   cookies (snd (on_rejected e w)) ''refresh_token'' = None \<and>
   (window_defined w \<longrightarrow>
      localStorage (snd (on_rejected e w)) ''auth-storage'' = None \<and>
      location_href (snd (on_rejected e w)) = ''/login'') \<and>
   (\<forall>k. k \<noteq> ''auth-storage'' \<longrightarrow> localStorage (snd (on_rejected e w)) k = localStorage w k)"
  by (auto simp: on_rejected.simps [of e] on_rejected_sync_def unauthorized_def Let_def
      refresh_failed_def Cookies_remove_def localStorage_removeItem_def Cookies_get_def
      receive_def send_def split: list.splits sum.splits option.splits)

theorem refresh_failure_purges_witness:
  "unauthorized \<lparr>config = get_cart, response = answer 401 Null\<rparr> \<and>
   \<not> retry (config \<lparr>config = get_cart, response = answer 401 Null\<rparr>) \<and>
   isl (settle (refresh_request (Cookies_get ''refresh_token'' (browser [answer 401 Null])))
          (fst (receive (browser [answer 401 Null])))) \<and>
   fst (on_rejected \<lparr>config = get_cart, response = answer 401 Null\<rparr> (browser [answer 401 Null]))
     = Inl (AxiosErr \<lparr>config = get_cart\<lparr>retry := True\<rparr>, response = answer 401 Null\<rparr>) \<and>
   cookies (snd (on_rejected \<lparr>config = get_cart, response = answer 401 Null\<rparr>
       (browser [answer 401 Null]))) ''access_token'' = None \<and>
   cookies (snd (on_rejected \<lparr>config = get_cart, response = answer 401 Null\<rparr>
       (browser [answer 401 Null]))) ''refresh_token'' = None \<and>
   window_defined (browser [answer 401 Null]) \<and>
   localStorage (snd (on_rejected \<lparr>config = get_cart, response = answer 401 Null\<rparr>
       (browser [answer 401 Null]))) ''auth-storage'' = None \<and>
   location_href (snd (on_rejected \<lparr>config = get_cart, response = answer 401 Null\<rparr>
       (browser [answer 401 Null]))) = ''/login'' \<and>
   localStorage (snd (on_rejected \<lparr>config = get_cart, response = answer 401 Null\<rparr>
       (browser [answer 401 Null]))) ''cart-storage'' = Some (cart_partialize shopping)"
proof -
  let ?e = "\<lparr>config = get_cart, response = answer 401 Null\<rparr>"
  let ?w = "browser [answer 401 Null]"
  have hyp: "unauthorized ?e \<and> \<not> retry (config ?e) \<and>
      (\<not> truthy (Cookies_get ''refresh_token'' ?w) \<or>
       isl (settle (refresh_request (Cookies_get ''refresh_token'' ?w)) (fst (receive ?w))))"
    by (simp add: sample_defs unauthorized_def Cookies_get_def settle_def receive_def)
  have storage: "localStorage ?w ''cart-storage'' = Some (cart_partialize shopping)"
    and window: "window_defined ?w"
    by (simp_all add: browser_def)
  have "''cart-storage'' \<noteq> ''auth-storage''"
    by simp
  with refresh_failure_purges [OF hyp] hyp storage window show ?thesis
    by (simp add: sample_defs unauthorized_def Cookies_get_def settle_def receive_def)
qed

text \<open>
  C3. The code at an input where the claim fails: the credential call
  succeeds and the profile request that follows is answered with 500.
  \<open>login\<close> resolves, and the store is left with \<open>user = null\<close> and
  \<open>isAuthenticated = true\<close>.
\<close>

theorem login_authenticated_without_profile:
  "result (login ''an@example.com'' ''secret''
       (anonymous [answer 200 (Obj [(''access'', Str ''a1''), (''refresh'', Str ''r1'')]),
                   answer 500 Null]) auth_initial) = Inr () \<and>
   map (\<lambda>c. url (snd c)) (wire (world_after (login ''an@example.com'' ''secret''
       (anonymous [answer 200 (Obj [(''access'', Str ''a1''), (''refresh'', Str ''r1'')]),
                   answer 500 Null]) auth_initial)))
     = [''/users/login/'', ''/users/profile/''] \<and>
   user (store_after (login ''an@example.com'' ''secret''
       (anonymous [answer 200 (Obj [(''access'', Str ''a1''), (''refresh'', Str ''r1'')]),
                   answer 500 Null]) auth_initial)) = Null \<and>
   isAuthenticated (store_after (login ''an@example.com'' ''secret''
       (anonymous [answer 200 (Obj [(''access'', Str ''a1''), (''refresh'', Str ''r1'')]),
                   answer 500 Null]) auth_initial))"
  by (simp add: api_eval anonymous_def answer_def auth_initial_def login_def login_try_def
      fetchProfile_def auth_set_def result_def world_after_def store_after_def)

text \<open>
  C4, as the claim states it, fails for \<open>clearCart\<close>: the server answers the
  clear call with a snapshot of the (now empty) cart, and the store does not
  hold that snapshot afterwards.
\<close>

theorem clearCart_discards_snapshot:
  "fst (server_call Clear (browser [answer 200 (Obj [(''cart'', empty_cart)])]))
     = Inr \<lparr>status = 200, data = Obj [(''cart'', empty_cart)]\<rparr> \<and>
   result (perform Clear (browser [answer 200 (Obj [(''cart'', empty_cart)])]) shopping) = Inr () \<and>
   cart (store_after (perform Clear (browser [answer 200 (Obj [(''cart'', empty_cart)])]) shopping))
     \<noteq> empty_cart"
  by (simp add: api_eval browser_def answer_def empty_cart_def clearCart_def cart_set_def
      cart_finally_def result_def store_after_def)

text \<open>
  C4, amended. The store's cart is only ever copied from a server response
  or set to \<open>null\<close>, never computed, on every path of every action. After
  \<open>addToCart\<close>, \<open>updateQuantity\<close> or \<open>removeFromCart\<close> it is the \<open>cart\<close>
  member of the response, whole, when the call succeeded and the body could
  be read, and the cart held before otherwise. After \<open>clearCart\<close> it is
  \<open>null\<close> when the call succeeded, whatever the response holds, and the
  cart held before otherwise. After \<open>fetchCart\<close> it is the response body
  when the call succeeded and the cart held before otherwise.
\<close>

theorem cart_is_server_snapshot_or_null:
  "(m \<noteq> Clear \<and> fst (server_call m w) = Inr resp \<and> get_prop (data resp) ''cart'' = Inr c \<longrightarrow>
      cart (store_after (perform m w s)) = c) \<and>
   (fst (api_get ''/cart/'' w) = Inr resp \<longrightarrow> cart (store_after (fetchCart w s)) = data resp) \<and>
   (fst (server_call Clear w) = Inr resp \<longrightarrow> cart (store_after (perform Clear w s)) = Null) \<and>
   cart (store_after (perform m w s)) =
     (case fst (server_call m w) of
        Inl err \<Rightarrow> cart s
      | Inr answered \<Rightarrow>
          if m = Clear then Null
          else (case get_prop (data answered) ''cart'' of Inl je \<Rightarrow> cart s | Inr snapshot \<Rightarrow> snapshot)) \<and>
   cart (store_after (fetchCart w s)) =
     (case fst (api_get ''/cart/'' w) of Inl err \<Rightarrow> cart s | Inr answered \<Rightarrow> data answered)"
proof -
  let ?w0 = "persist ''cart-storage''
      (cart_partialize (s\<lparr>cart_isLoading := True, cart_error := Null\<rparr>)) w"
  have post: "cart (store_after (cart_post u body fallback w s)) =
      (case fst (api_post u body w) of
         Inl err \<Rightarrow> cart s
       | Inr answered \<Rightarrow>
           (case get_prop (data answered) ''cart'' of Inl je \<Rightarrow> cart s | Inr snapshot \<Rightarrow> snapshot))"
    for u body fallback
  proof -
    obtain r w1 where call: "api_post u body ?w0 = (r, w1)"
      by (cases "api_post u body ?w0")
    with api_post_storage [of w ?w0 u body] have "fst (api_post u body w) = r"
      by simp
    with call show ?thesis
      by (simp add: cart_post_def cart_set_def cart_finally_def cart_catch_def store_after_def
          split: sum.splits)
  qed
  have clear: "cart (store_after (clearCart w s)) =
      (case fst (api_post ''/cart/clear/'' Undefined w) of Inl err \<Rightarrow> cart s | Inr answered \<Rightarrow> Null)"
  proof -
    obtain r w1 where call: "api_post ''/cart/clear/'' Undefined ?w0 = (r, w1)"
      by (cases "api_post ''/cart/clear/'' Undefined ?w0")
    with api_post_storage [of w ?w0 "''/cart/clear/''" Undefined]
    have "fst (api_post ''/cart/clear/'' Undefined w) = r"
      by simp
    with call show ?thesis
      by (simp add: clearCart_def cart_set_def cart_finally_def cart_catch_def store_after_def
          split: sum.splits)
  qed
  have mutation: "cart (store_after (perform m w s)) =
      (case fst (server_call m w) of
         Inl err \<Rightarrow> cart s
       | Inr answered \<Rightarrow>
           if m = Clear then Null
           else (case get_prop (data answered) ''cart'' of Inl je \<Rightarrow> cart s | Inr snapshot \<Rightarrow> snapshot))"
  proof (cases m)
    case (Add productId quantity)
    with post show ?thesis by (simp add: addToCart_def split: sum.splits)
  next
    case (Update productId quantity)
    with post show ?thesis by (simp add: updateQuantity_def split: sum.splits)
  next
    case (Remove productId)
    with post show ?thesis by (simp add: removeFromCart_def split: sum.splits)
  next
    case Clear
    with clear show ?thesis by (simp split: sum.splits)
  qed
  have fetch: "cart (store_after (fetchCart w s)) =
      (case fst (api_get ''/cart/'' w) of Inl err \<Rightarrow> cart s | Inr answered \<Rightarrow> data answered)"
  proof -
    obtain r w1 where call: "api_get ''/cart/'' ?w0 = (r, w1)"
      by (cases "api_get ''/cart/'' ?w0")
    with api_get_storage [of w ?w0 "''/cart/''"] have "fst (api_get ''/cart/'' w) = r"
      by simp
    with call show ?thesis
      by (simp add: fetchCart_def cart_set_def cart_finally_def store_after_def
          split: sum.splits)
  qed
  have "cart (store_after (perform m w s)) = c"
    if "m \<noteq> Clear" and "fst (server_call m w) = Inr resp"
      and "get_prop (data resp) ''cart'' = Inr c"
    using that mutation by simp
  moreover have "cart (store_after (fetchCart w s)) = data resp"
    if "fst (api_get ''/cart/'' w) = Inr resp"
    using that fetch by simp
  moreover have "cart (store_after (perform Clear w s)) = Null"
    if "fst (server_call Clear w) = Inr resp"
    using that clear by simp
  ultimately show ?thesis
    using mutation fetch by blast
qed

theorem cart_is_server_snapshot_or_null_witness:
  "fst (server_call (Add 7 None) (browser [answer 200 (Obj [(''cart'', sample_cart)])]))
     = Inr \<lparr>status = 200, data = Obj [(''cart'', sample_cart)]\<rparr> \<and>
   get_prop (data \<lparr>status = 200, data = Obj [(''cart'', sample_cart)]\<rparr>) ''cart'' = Inr sample_cart \<and>
   cart (store_after (perform (Add 7 None)
       (browser [answer 200 (Obj [(''cart'', sample_cart)])]) cart_initial)) = sample_cart \<and>
   fst (api_get ''/cart/'' (browser [answer 200 (Obj [(''cart'', sample_cart)])]))
     = Inr \<lparr>status = 200, data = Obj [(''cart'', sample_cart)]\<rparr> \<and>
   cart (store_after (fetchCart (browser [answer 200 (Obj [(''cart'', sample_cart)])]) cart_initial))
     = Obj [(''cart'', sample_cart)] \<and>
   fst (server_call Clear (browser [answer 200 (Obj [(''cart'', sample_cart)])]))
     = Inr \<lparr>status = 200, data = Obj [(''cart'', sample_cart)]\<rparr> \<and>
   cart (store_after (perform Clear
       (browser [answer 200 (Obj [(''cart'', sample_cart)])]) cart_initial)) = Null \<and>
   isl (fst (api_get ''/cart/'' (browser [answer 500 Null]))) \<and>
   cart (store_after (fetchCart (browser [answer 500 Null]) shopping)) = sample_cart \<and>
   isl (fst (server_call (Remove 7) (browser [answer 500 Null]))) \<and>
   cart (store_after (perform (Remove 7) (browser [answer 500 Null]) shopping)) = sample_cart \<and>
   fst (server_call (Update 7 5) (browser [answer 200 Null])) = Inr \<lparr>status = 200, data = Null\<rparr> \<and>
   cart (store_after (perform (Update 7 5) (browser [answer 200 Null]) shopping)) = sample_cart"
proof -
  let ?w = "browser [answer 200 (Obj [(''cart'', sample_cart)])]"
  let ?resp = "\<lparr>status = 200, data = Obj [(''cart'', sample_cart)]\<rparr>"
  have add: "fst (server_call (Add 7 None) ?w) = Inr ?resp"
    by (simp add: api_eval browser_def answer_def)
  have fetch: "fst (api_get ''/cart/'' ?w) = Inr ?resp"
    by (simp add: api_eval browser_def answer_def)
  have clear: "fst (server_call Clear ?w) = Inr ?resp"
    by (simp add: api_eval browser_def answer_def)
  have member: "get_prop (data ?resp) ''cart'' = Inr sample_cart"
    by simp
  have fetch_failed: "fst (api_get ''/cart/'' (browser [answer 500 Null]))
      = Inl (AxiosErr \<lparr>config = get_cart\<lparr>authorization := Some ''Bearer a0''\<rparr>,
               response = answer 500 Null\<rparr>)"
    by (simp add: api_eval browser_def answer_def get_cart_def)
  have remove_failed: "fst (server_call (Remove 7) (browser [answer 500 Null]))
      = Inl (AxiosErr \<lparr>config = \<lparr>http_method = ''POST'', url = ''/cart/remove/'',
                 req_data = Obj [(''product_id'', Num 7)],
                 authorization = Some ''Bearer a0'', retry = False\<rparr>,
               response = answer 500 Null\<rparr>)"
    by (simp add: api_eval browser_def answer_def)
  have unreadable: "fst (server_call (Update 7 5) (browser [answer 200 Null]))
      = Inr \<lparr>status = 200, data = Null\<rparr>"
    by (simp add: api_eval browser_def answer_def)
  from add fetch clear member fetch_failed remove_failed unreadable
    cart_is_server_snapshot_or_null [of "Add 7 None" ?w ?resp sample_cart cart_initial]
    cart_is_server_snapshot_or_null [where w = "browser [answer 500 Null]" and s = shopping
      and m = "Remove 7"]
    cart_is_server_snapshot_or_null [where w = "browser [answer 200 Null]" and s = shopping
      and m = "Update 7 5"]
  show ?thesis
    by (simp add: shopping_def)
qed

text \<open>
  C5. When the server call of a cart mutation (\<open>addToCart\<close>,
  \<open>updateQuantity\<close>, \<open>removeFromCart\<close>, \<open>clearCart\<close>) fails, the action
  rejects with that same error and the store's \<open>cart\<close> is the snapshot it
  held before the call.
\<close>

theorem cart_mutation_failure:
  "fst (server_call m w) = Inl err \<Longrightarrow>
   result (perform m w s) = Inl err \<and> cart (store_after (perform m w s)) = cart s"
proof -
  assume failed: "fst (server_call m w) = Inl err"
  have post: "result (cart_post u body fallback w s) = Inl err \<and>
      cart (store_after (cart_post u body fallback w s)) = cart s"
    if "fst (api_post u body w) = Inl err" for u body fallback
  proof -
    from that api_post_storage [of w "persist ''cart-storage''
        (cart_partialize (s\<lparr>cart_isLoading := True, cart_error := Null\<rparr>)) w" u body]
    show ?thesis
      by (auto simp: cart_post_def cart_set_def cart_finally_def cart_catch_def result_def
          store_after_def split: prod.splits sum.splits)
  qed
  show ?thesis
  proof (cases m)
    case (Add productId quantity)
    with failed post show ?thesis by (simp add: addToCart_def)
  next
    case (Update productId quantity)
    with failed post show ?thesis by (simp add: updateQuantity_def)
  next
    case (Remove productId)
    with failed post show ?thesis by (simp add: removeFromCart_def)
  next
    case Clear
    with failed api_post_storage [of w "persist ''cart-storage''
        (cart_partialize (s\<lparr>cart_isLoading := True, cart_error := Null\<rparr>)) w"
        "''/cart/clear/''" Undefined]
    show ?thesis
      by (auto simp: clearCart_def cart_set_def cart_finally_def cart_catch_def result_def
          store_after_def split: prod.splits sum.splits)
  qed
qed

theorem cart_mutation_failure_witness:
  "fst (server_call (Update 7 5) (browser [answer 400 (Obj [(''error'', Str ''Out of stock'')])]))
     = Inl (AxiosErr \<lparr>config = \<lparr>http_method = ''POST'', url = ''/cart/update/'',
                req_data = Obj [(''product_id'', Num 7), (''quantity'', Num 5)],
                authorization = Some ''Bearer a0'', retry = False\<rparr>,
              response = answer 400 (Obj [(''error'', Str ''Out of stock'')])\<rparr>) \<and>
   result (perform (Update 7 5) (browser [answer 400 (Obj [(''error'', Str ''Out of stock'')])]) shopping)
     = Inl (AxiosErr \<lparr>config = \<lparr>http_method = ''POST'', url = ''/cart/update/'',
                req_data = Obj [(''product_id'', Num 7), (''quantity'', Num 5)],
                authorization = Some ''Bearer a0'', retry = False\<rparr>,
              response = answer 400 (Obj [(''error'', Str ''Out of stock'')])\<rparr>) \<and>
   cart (store_after (perform (Update 7 5)
       (browser [answer 400 (Obj [(''error'', Str ''Out of stock'')])]) shopping)) = sample_cart"
proof -
  have "fst (server_call (Update 7 5) (browser [answer 400 (Obj [(''error'', Str ''Out of stock'')])]))
     = Inl (AxiosErr \<lparr>config = \<lparr>http_method = ''POST'', url = ''/cart/update/'',
                req_data = Obj [(''product_id'', Num 7), (''quantity'', Num 5)],
                authorization = Some ''Bearer a0'', retry = False\<rparr>,
              response = answer 400 (Obj [(''error'', Str ''Out of stock'')])\<rparr>)"
    by (simp add: api_eval browser_def answer_def)
  from this cart_mutation_failure [OF this, of shopping] show ?thesis
    by (simp add: shopping_def)
qed

text \<open>
  C6. When the credential call of \<open>login\<close> is rejected, \<open>login\<close> rejects
  with that error, and \<open>user\<close> and \<open>isAuthenticated\<close> are what they were
  before the call.
\<close>

theorem login_rejected_keeps_state:
  "fst (api_post ''/users/login/'' (Obj [(''email'', Str email), (''password'', Str password)]) w)
     = Inl err \<Longrightarrow>
   result (login email password w s) = Inl err \<and>
   user (store_after (login email password w s)) = user s \<and>
   isAuthenticated (store_after (login email password w s)) = isAuthenticated s \<and>
   \<not> isLoading (store_after (login email password w s))"
  using api_post_storage [of w "persist ''auth-storage'' (auth_partialize (s\<lparr>isLoading := True\<rparr>)) w"
      "''/users/login/''" "Obj [(''email'', Str email), (''password'', Str password)]"]
  by (auto simp: login_def login_try_def auth_set_def result_def store_after_def
      split: prod.splits sum.splits)

theorem login_rejected_keeps_state_witness:
  "fst (api_post ''/users/login/'' (Obj [(''email'', Str ''an@example.com''), (''password'', Str ''wrong'')])
        (anonymous [answer 401 (Obj [(''detail'', Str ''Invalid credentials'')])]))
     = Inl (AxiosErr \<lparr>config = \<lparr>http_method = ''POST'', url = ''/users/login/'',
                req_data = Obj [(''email'', Str ''an@example.com''), (''password'', Str ''wrong'')],
                authorization = None, retry = True\<rparr>,
              response = answer 401 (Obj [(''detail'', Str ''Invalid credentials'')])\<rparr>) \<and>
   result (login ''an@example.com'' ''wrong''
       (anonymous [answer 401 (Obj [(''detail'', Str ''Invalid credentials'')])]) auth_initial)
     = Inl (AxiosErr \<lparr>config = \<lparr>http_method = ''POST'', url = ''/users/login/'',
                req_data = Obj [(''email'', Str ''an@example.com''), (''password'', Str ''wrong'')],
                authorization = None, retry = True\<rparr>,
              response = answer 401 (Obj [(''detail'', Str ''Invalid credentials'')])\<rparr>) \<and>
   user (store_after (login ''an@example.com'' ''wrong''
       (anonymous [answer 401 (Obj [(''detail'', Str ''Invalid credentials'')])]) auth_initial)) = Null \<and>
   \<not> isAuthenticated (store_after (login ''an@example.com'' ''wrong''
       (anonymous [answer 401 (Obj [(''detail'', Str ''Invalid credentials'')])]) auth_initial))"
proof -
  have "fst (api_post ''/users/login/'' (Obj [(''email'', Str ''an@example.com''), (''password'', Str ''wrong'')])
        (anonymous [answer 401 (Obj [(''detail'', Str ''Invalid credentials'')])]))
     = Inl (AxiosErr \<lparr>config = \<lparr>http_method = ''POST'', url = ''/users/login/'',
                req_data = Obj [(''email'', Str ''an@example.com''), (''password'', Str ''wrong'')],
                authorization = None, retry = True\<rparr>,
              response = answer 401 (Obj [(''detail'', Str ''Invalid credentials'')])\<rparr>)"
    by (simp add: api_eval anonymous_def answer_def)
  from this login_rejected_keeps_state [OF this, of auth_initial] show ?thesis
    by (simp add: auth_initial_def)
qed

text \<open>
  C7. A response error that is not a recoverable 401 (its status is not 401,
  it has no response at all, or its request is already marked as retried) is
  handed back by the response interceptor as it came: the promise rejects
  with the very same error, response payload included, and the world is
  untouched, so nothing was sent again. Seen from the caller: a request
  answered with such a status rejects with an error that carries that
  answer, after that one request and no other.
\<close>

theorem on_rejected_propagates:
  "(\<not> unauthorized e \<or> retry (config e) \<longrightarrow> on_rejected e w = (Inl (AxiosErr e), w)) \<and>
   (replies w = Some r # rs \<and> \<not> (200 \<le> status r \<and> status r < 300) \<and>
    (status r \<noteq> 401 \<or> retry cfg) \<longrightarrow>
      api cfg w = (Inl (AxiosErr \<lparr>config = request_interceptor cfg w, response = Some r\<rparr>),
                   (send Client (request_interceptor cfg w) w)\<lparr>replies := rs\<rparr>))"
proof (intro conjI impI)
  assume "\<not> unauthorized e \<or> retry (config e)"
  then show "on_rejected e w = (Inl (AxiosErr e), w)"
    by (auto simp: on_rejected.simps on_rejected_sync_def)
next
  let ?e = "\<lparr>config = request_interceptor cfg w, response = Some r\<rparr>"
  assume answered: "replies w = Some r # rs \<and> \<not> (200 \<le> status r \<and> status r < 300) \<and>
    (status r \<noteq> 401 \<or> retry cfg)"
  then have "\<not> unauthorized ?e \<or> retry (config ?e)"
    by (auto simp: unauthorized_def)
  then have "on_rejected ?e ((send Client (request_interceptor cfg w) w)\<lparr>replies := rs\<rparr>)
      = (Inl (AxiosErr ?e), (send Client (request_interceptor cfg w) w)\<lparr>replies := rs\<rparr>)"
    by (auto simp: on_rejected.simps on_rejected_sync_def)
  with answered show "api cfg w
      = (Inl (AxiosErr ?e), (send Client (request_interceptor cfg w) w)\<lparr>replies := rs\<rparr>)"
    by (auto simp: api.simps [of cfg] receive_def send_def settle_def Let_def)
qed

theorem on_rejected_propagates_witness:
  "\<not> unauthorized \<lparr>config = get_cart, response = answer 500 (Obj [(''error'', Str ''boom'')])\<rparr> \<and>
   on_rejected \<lparr>config = get_cart, response = answer 500 (Obj [(''error'', Str ''boom'')])\<rparr> (browser [])
     = (Inl (AxiosErr \<lparr>config = get_cart, response = answer 500 (Obj [(''error'', Str ''boom'')])\<rparr>),
        browser []) \<and>
   replies (browser [answer 500 (Obj [(''error'', Str ''boom'')])])
     = [Some \<lparr>status = 500, data = Obj [(''error'', Str ''boom'')]\<rparr>] \<and>
   fst (api get_cart (browser [answer 500 (Obj [(''error'', Str ''boom'')])]))
     = Inl (AxiosErr \<lparr>config = get_cart\<lparr>authorization := Some ''Bearer a0''\<rparr>,
              response = Some \<lparr>status = 500, data = Obj [(''error'', Str ''boom'')]\<rparr>\<rparr>) \<and>
   wire (snd (api get_cart (browser [answer 500 (Obj [(''error'', Str ''boom'')])])))
     = [(Client, get_cart\<lparr>authorization := Some ''Bearer a0''\<rparr>)]"
proof -
  let ?e = "\<lparr>config = get_cart, response = answer 500 (Obj [(''error'', Str ''boom'')])\<rparr>"
  let ?r = "\<lparr>status = 500, data = Obj [(''error'', Str ''boom'')]\<rparr>"
  have handler: "\<not> unauthorized ?e"
    by (simp add: unauthorized_def answer_def)
  have client: "replies (browser [answer 500 (Obj [(''error'', Str ''boom'')])]) = Some ?r # []"
    by (simp add: browser_def answer_def)
  from handler client
    on_rejected_propagates [where e = ?e and w = "browser []"]
    on_rejected_propagates [where w = "browser [answer 500 (Obj [(''error'', Str ''boom'')])]"
      and r = ?r and rs = "[]" and cfg = get_cart]
  show ?thesis
    by (simp add: browser_def answer_def get_cart_def request_interceptor_def Cookies_get_def
        send_def)
qed

text \<open>
  C8, as the claim states it, fails in its last part: two clears in
  succession, each answered 200 with the emptied cart, both resolve, but
  after neither does the store hold a cart with no items. It holds \<open>null\<close>,
  no cart at all, where the server's snapshot is a cart with no items.
\<close>

theorem clearCart_leaves_no_cart:
  "cart_without_items empty_cart \<and>
   result (clearCart (browser [answer 200 (Obj [(''cart'', empty_cart)]),
                               answer 200 (Obj [(''cart'', empty_cart)])]) shopping) = Inr () \<and>
   cart (store_after (clearCart (browser [answer 200 (Obj [(''cart'', empty_cart)]),
                               answer 200 (Obj [(''cart'', empty_cart)])]) shopping)) = Null \<and>
   \<not> cart_without_items
       (cart (store_after (clearCart (browser [answer 200 (Obj [(''cart'', empty_cart)]),
                               answer 200 (Obj [(''cart'', empty_cart)])]) shopping))) \<and>
   result (clearCart
       (world_after (clearCart (browser [answer 200 (Obj [(''cart'', empty_cart)]),
                               answer 200 (Obj [(''cart'', empty_cart)])]) shopping))
       (store_after (clearCart (browser [answer 200 (Obj [(''cart'', empty_cart)]),
                               answer 200 (Obj [(''cart'', empty_cart)])]) shopping))) = Inr () \<and>
   \<not> cart_without_items
       (cart (store_after (clearCart
          (world_after (clearCart (browser [answer 200 (Obj [(''cart'', empty_cart)]),
                               answer 200 (Obj [(''cart'', empty_cart)])]) shopping))
          (store_after (clearCart (browser [answer 200 (Obj [(''cart'', empty_cart)]),
                               answer 200 (Obj [(''cart'', empty_cart)])]) shopping)))))"
  by (simp add: api_eval browser_def answer_def empty_cart_def shopping_def clearCart_def
      cart_set_def cart_finally_def cart_partialize_def result_def world_after_def
      store_after_def cart_without_items_def)

text \<open>
  C8, amended. \<open>clearCart\<close> is idempotent at the store interface: of two
  clears in succession, each server call succeeding, both resolve, and after
  each the store's \<open>cart\<close> is \<open>null\<close> (no cart, not a cart with an empty
  list of items), no error is recorded and loading is over; the second
  clear leaves the store exactly as the first left it.
\<close>

theorem clearCart_twice:
  "\<not> isl (fst (api_post ''/cart/clear/'' Undefined w)) \<and>
   \<not> isl (fst (api_post ''/cart/clear/'' Undefined (world_after (clearCart w s)))) \<Longrightarrow>
   result (clearCart w s) = Inr () \<and>
   cart (store_after (clearCart w s)) = Null \<and>
   cart_error (store_after (clearCart w s)) = Null \<and>
   \<not> cart_isLoading (store_after (clearCart w s)) \<and>
   result (clearCart (world_after (clearCart w s)) (store_after (clearCart w s))) = Inr () \<and>
   cart (store_after (clearCart (world_after (clearCart w s)) (store_after (clearCart w s)))) = Null \<and>
   cart_error (store_after (clearCart (world_after (clearCart w s)) (store_after (clearCart w s))))
     = Null \<and>
   \<not> cart_isLoading
       (store_after (clearCart (world_after (clearCart w s)) (store_after (clearCart w s)))) \<and>
   store_after (clearCart (world_after (clearCart w s)) (store_after (clearCart w s)))
     = store_after (clearCart w s)"
proof -
  have once: "result (clearCart v t) = Inr () \<and>
      store_after (clearCart v t) = t\<lparr>cart := Null, cart_isLoading := False, cart_error := Null\<rparr>"
    if "fst (api_post ''/cart/clear/'' Undefined v) = Inr resp" for v t resp
    using that api_post_storage [of v "persist ''cart-storage''
        (cart_partialize (t\<lparr>cart_isLoading := True, cart_error := Null\<rparr>)) v"
        "''/cart/clear/''" Undefined]
    by (auto simp: clearCart_def cart_set_def cart_finally_def cart_catch_def result_def
        store_after_def split: prod.splits sum.splits)
  assume "\<not> isl (fst (api_post ''/cart/clear/'' Undefined w)) \<and>
    \<not> isl (fst (api_post ''/cart/clear/'' Undefined (world_after (clearCart w s))))"
  then obtain resp1 resp2
    where "fst (api_post ''/cart/clear/'' Undefined w) = Inr resp1"
      and "fst (api_post ''/cart/clear/'' Undefined (world_after (clearCart w s))) = Inr resp2"
    by (metis sum.collapse(2))
  then have first: "result (clearCart w s) = Inr ()"
    and left: "store_after (clearCart w s)
        = s\<lparr>cart := Null, cart_isLoading := False, cart_error := Null\<rparr>"
    and second: "result (clearCart (world_after (clearCart w s)) (store_after (clearCart w s)))
        = Inr ()"
    and again: "store_after (clearCart (world_after (clearCart w s)) (store_after (clearCart w s)))
        = (store_after (clearCart w s))\<lparr>cart := Null, cart_isLoading := False, cart_error := Null\<rparr>"
    using once [of w resp1 s]
      once [of "world_after (clearCart w s)" resp2 "store_after (clearCart w s)"]
    by simp_all
  from again left
  have same: "store_after (clearCart (world_after (clearCart w s)) (store_after (clearCart w s)))
      = s\<lparr>cart := Null, cart_isLoading := False, cart_error := Null\<rparr>"
    by simp
  from left have emptied: "cart (store_after (clearCart w s)) = Null"
    "cart_error (store_after (clearCart w s)) = Null"
    "\<not> cart_isLoading (store_after (clearCart w s))"
    by simp_all
  from same
  have still: "cart (store_after (clearCart (world_after (clearCart w s))
        (store_after (clearCart w s)))) = Null"
    "cart_error (store_after (clearCart (world_after (clearCart w s))
        (store_after (clearCart w s)))) = Null"
    "\<not> cart_isLoading (store_after (clearCart (world_after (clearCart w s))
        (store_after (clearCart w s))))"
    by simp_all
  from same left
  have unchanged: "store_after (clearCart (world_after (clearCart w s)) (store_after (clearCart w s)))
      = store_after (clearCart w s)"
    by simp
  from first second emptied still unchanged show ?thesis
    by blast
qed

theorem clearCart_twice_witness:
  "\<not> isl (fst (api_post ''/cart/clear/'' Undefined
       (browser [answer 200 (Obj [(''message'', Str ''Cart cleared'')]),
                 answer 200 (Obj [(''message'', Str ''Cart cleared'')])]))) \<and>
   \<not> isl (fst (api_post ''/cart/clear/'' Undefined
       (world_after (clearCart
          (browser [answer 200 (Obj [(''message'', Str ''Cart cleared'')]),
                    answer 200 (Obj [(''message'', Str ''Cart cleared'')])]) shopping)))) \<and>
   result (clearCart
       (browser [answer 200 (Obj [(''message'', Str ''Cart cleared'')]),
                 answer 200 (Obj [(''message'', Str ''Cart cleared'')])]) shopping) = Inr () \<and>
   cart (store_after (clearCart
       (browser [answer 200 (Obj [(''message'', Str ''Cart cleared'')]),
                 answer 200 (Obj [(''message'', Str ''Cart cleared'')])]) shopping)) = Null \<and>
   result (clearCart
       (world_after (clearCart
          (browser [answer 200 (Obj [(''message'', Str ''Cart cleared'')]),
                    answer 200 (Obj [(''message'', Str ''Cart cleared'')])]) shopping))
       (store_after (clearCart
          (browser [answer 200 (Obj [(''message'', Str ''Cart cleared'')]),
                    answer 200 (Obj [(''message'', Str ''Cart cleared'')])]) shopping))) = Inr () \<and>
   cart (store_after (clearCart
       (world_after (clearCart
          (browser [answer 200 (Obj [(''message'', Str ''Cart cleared'')]),
                    answer 200 (Obj [(''message'', Str ''Cart cleared'')])]) shopping))
       (store_after (clearCart
          (browser [answer 200 (Obj [(''message'', Str ''Cart cleared'')]),
                    answer 200 (Obj [(''message'', Str ''Cart cleared'')])]) shopping)))) = Null \<and>
   store_after (clearCart
       (world_after (clearCart
          (browser [answer 200 (Obj [(''message'', Str ''Cart cleared'')]),
                    answer 200 (Obj [(''message'', Str ''Cart cleared'')])]) shopping))
       (store_after (clearCart
          (browser [answer 200 (Obj [(''message'', Str ''Cart cleared'')]),
                    answer 200 (Obj [(''message'', Str ''Cart cleared'')])]) shopping)))
     = store_after (clearCart
          (browser [answer 200 (Obj [(''message'', Str ''Cart cleared'')]),
                    answer 200 (Obj [(''message'', Str ''Cart cleared'')])]) shopping)"
proof -
  let ?w = "browser [answer 200 (Obj [(''message'', Str ''Cart cleared'')]),
                     answer 200 (Obj [(''message'', Str ''Cart cleared'')])]"
  have first: "\<not> isl (fst (api_post ''/cart/clear/'' Undefined ?w))"
    by (simp add: api_eval browser_def answer_def)
  have second: "\<not> isl (fst (api_post ''/cart/clear/'' Undefined (world_after (clearCart ?w shopping))))"
    by (simp add: api_eval browser_def answer_def clearCart_def cart_set_def cart_finally_def
        world_after_def)
  from first second clearCart_twice [of ?w shopping] show ?thesis
    by simp
qed

text \<open>
  C9. Several requests have failed with 401, none of them retried before,
  and their rejections reach the response interceptor one after the other
  before any refresh call is answered. Then every handler sends a refresh
  call of its own, carrying the stored refresh token: N rejections put N
  refresh calls on the wire, and every handler is left waiting for its own
  answer.
\<close>

theorem concurrent_401s_refresh_each:
  "(\<forall>e \<in> set es. unauthorized e \<and> \<not> retry (config e)) \<and>
   truthy (Cookies_get ''refresh_token'' w) \<Longrightarrow>
   refresh_calls (snd (start_handlers es w)) = refresh_calls w + length es \<and>
   wire (snd (start_handlers es w))
     = wire w @ replicate (length es) (Plain, refresh_request (Cookies_get ''refresh_token'' w)) \<and>
   fst (start_handlers es w)
     = map (\<lambda>e. AwaitRefresh (e\<lparr>config := (config e)\<lparr>retry := True\<rparr>\<rparr>)
                   (refresh_request (Cookies_get ''refresh_token'' w))) es"
proof (induction es arbitrary: w)
  case Nil
  show ?case by simp
next
  case (Cons e es)
  let ?rq = "refresh_request (Cookies_get ''refresh_token'' w)"
  from Cons.prems have head: "on_rejected_sync e w
      = (AwaitRefresh (e\<lparr>config := (config e)\<lparr>retry := True\<rparr>\<rparr>) ?rq, send Plain ?rq w)"
    by (simp add: on_rejected_sync_def unauthorized_def Let_def)
  have same: "Cookies_get ''refresh_token'' (send Plain ?rq w) = Cookies_get ''refresh_token'' w"
    by (simp add: Cookies_get_def send_def)
  from Cons.prems same have "(\<forall>e \<in> set es. unauthorized e \<and> \<not> retry (config e)) \<and>
      truthy (Cookies_get ''refresh_token'' (send Plain ?rq w))"
    by simp
  from Cons.IH [OF this] same
  have rest: "refresh_calls (snd (start_handlers es (send Plain ?rq w)))
        = refresh_calls (send Plain ?rq w) + length es"
    and sent: "wire (snd (start_handlers es (send Plain ?rq w)))
        = wire (send Plain ?rq w) @ replicate (length es) (Plain, ?rq)"
    and waiting: "fst (start_handlers es (send Plain ?rq w))
        = map (\<lambda>e. AwaitRefresh (e\<lparr>config := (config e)\<lparr>retry := True\<rparr>\<rparr>) ?rq) es"
    by simp_all
  obtain ss w2 where run: "start_handlers es (send Plain ?rq w) = (ss, w2)"
    by (cases "start_handlers es (send Plain ?rq w)")
  have "wire (send Plain ?rq w) = wire w @ [(Plain, ?rq)]"
    by (simp add: send_def)
  with rest sent waiting run show ?case
    by (simp add: head)
qed

theorem concurrent_401s_refresh_each_witness:
  "unauthorized \<lparr>config = get_cart, response = answer 401 Null\<rparr> \<and>
   \<not> retry (config \<lparr>config = get_cart, response = answer 401 Null\<rparr>) \<and>
   truthy (Cookies_get ''refresh_token'' (browser [])) \<and>
   refresh_calls (snd (start_handlers
       [\<lparr>config = get_cart, response = answer 401 Null\<rparr>,
        \<lparr>config = get_cart, response = answer 401 Null\<rparr>,
        \<lparr>config = get_cart, response = answer 401 Null\<rparr>] (browser []))) = 3"
proof -
  let ?e = "\<lparr>config = get_cart, response = answer 401 Null\<rparr>"
  have hyp: "(\<forall>e \<in> set [?e, ?e, ?e]. unauthorized e \<and> \<not> retry (config e)) \<and>
      truthy (Cookies_get ''refresh_token'' (browser []))"
    by (simp add: sample_defs unauthorized_def Cookies_get_def)
  have "refresh_calls (browser []) = 0"
    by (simp add: refresh_calls_def browser_def)
  with concurrent_401s_refresh_each [OF hyp] hyp show ?thesis
    by simp
qed

text \<open>
  C10. \<open>fetchProfile\<close> never rejects: whatever the profile request does,
  the action resolves; when the request fails, the store is left with no
  user and \<open>isAuthenticated = false\<close>. So \<open>login\<close>, which awaits it, never
  sees the failure: once the credential call has resolved with a body the
  tokens can be read from, \<open>login\<close> resolves.
\<close>

theorem fetchProfile_never_rejects:
  "result (fetchProfile w s) = Inr () \<and>
   (isl (fst (api_get ''/users/profile/'' w)) \<longrightarrow>
      user (store_after (fetchProfile w s)) = Null \<and>
      \<not> isAuthenticated (store_after (fetchProfile w s))) \<and>
   (fst (api_post ''/users/login/'' (Obj [(''email'', Str email), (''password'', Str password)]) w)
      = Inr resp \<and> get_prop (data resp) ''access'' = Inr access \<longrightarrow>
      result (login email password w s) = Inr ())"
proof (intro conjI impI)
  show "result (fetchProfile w s) = Inr ()"
    by (auto simp: fetchProfile_def auth_set_def result_def split: prod.splits sum.splits)
  show "user (store_after (fetchProfile w s)) = Null"
    and "\<not> isAuthenticated (store_after (fetchProfile w s))"
    if "isl (fst (api_get ''/users/profile/'' w))"
    using that
    by (auto simp: fetchProfile_def auth_set_def store_after_def split: prod.splits sum.splits)
  assume tokens: "fst (api_post ''/users/login/''
      (Obj [(''email'', Str email), (''password'', Str password)]) w) = Inr resp \<and>
    get_prop (data resp) ''access'' = Inr access"
  then obtain refresh where "get_prop (data resp) ''refresh'' = Inr refresh"
    using get_prop_readable [of "data resp" "''access''" access "''refresh''"] by blast
  with tokens
    api_post_storage [of w "persist ''auth-storage'' (auth_partialize (s\<lparr>isLoading := True\<rparr>)) w"
      "''/users/login/''" "Obj [(''email'', Str email), (''password'', Str password)]"]
  show "result (login email password w s) = Inr ()"
    by (auto simp: login_def login_try_def auth_set_def result_def
        dest: fetchProfile_outcome split: prod.splits sum.splits)
qed

theorem fetchProfile_never_rejects_witness:
  "result (fetchProfile (browser [answer 500 Null]) signed_in) = Inr () \<and>
   isl (fst (api_get ''/users/profile/'' (browser [answer 500 Null]))) \<and>
   user (store_after (fetchProfile (browser [answer 500 Null]) signed_in)) = Null \<and>
   \<not> isAuthenticated (store_after (fetchProfile (browser [answer 500 Null]) signed_in)) \<and>
   fst (api_post ''/users/login/'' (Obj [(''email'', Str ''an@example.com''), (''password'', Str ''secret'')])
        (anonymous [answer 200 (Obj [(''access'', Str ''a1''), (''refresh'', Str ''r1'')]),
                    answer 500 Null]))
     = Inr \<lparr>status = 200, data = Obj [(''access'', Str ''a1''), (''refresh'', Str ''r1'')]\<rparr> \<and>
   result (login ''an@example.com'' ''secret''
       (anonymous [answer 200 (Obj [(''access'', Str ''a1''), (''refresh'', Str ''r1'')]),
                   answer 500 Null]) auth_initial) = Inr ()"
proof -
  let ?resp = "\<lparr>status = 200, data = Obj [(''access'', Str ''a1''), (''refresh'', Str ''r1'')]\<rparr>"
  have profile: "isl (fst (api_get ''/users/profile/'' (browser [answer 500 Null])))"
    by (simp add: api_eval sample_defs)
  have credentials: "fst (api_post ''/users/login/''
        (Obj [(''email'', Str ''an@example.com''), (''password'', Str ''secret'')])
        (anonymous [answer 200 (Obj [(''access'', Str ''a1''), (''refresh'', Str ''r1'')]),
                    answer 500 Null])) = Inr ?resp"
    by (simp add: api_eval sample_defs)
  have readable: "get_prop (data ?resp) ''access'' = Inr (Str ''a1'')"
    by simp
  from profile credentials readable
    fetchProfile_never_rejects [where w = "browser [answer 500 Null]" and s = signed_in]
    fetchProfile_never_rejects [where w = "anonymous
        [answer 200 (Obj [(''access'', Str ''a1''), (''refresh'', Str ''r1'')]), answer 500 Null]"
      and s = auth_initial and email = "''an@example.com''" and password = "''secret''"
      and resp = ?resp and access = "Str ''a1''"]
  show ?thesis
    by simp
qed

end
